theory Spec2Isabelle
  imports Complex_Main
begin

section \<open>SIFT matching on a region of interest (python/sift.py)\<close>

text \<open>
  The module has three functions: \<open>image_keypoints\<close> runs the external detector
  \<^verbatim>\<open>sift_roi\<close> on a rectangle of one image, \<open>keypoints_match\<close> runs the external
  matcher \<^verbatim>\<open>match_cli\<close> and then the external robust estimator \<^verbatim>\<open>ransac\<close>, and
  \<open>matches_on_rpc_roi\<close> repeats detection and matching with a decreasing detection
  threshold until more than ten matches are found or six attempts have been made.

  Every effect of the module goes through four calls into code that is not part of it:
  \<^verbatim>\<open>common.tmpfile\<close>, \<^verbatim>\<open>common.run\<close>, \<^verbatim>\<open>rpc_utils.corresponding_roi\<close> and
  \<^verbatim>\<open>numpy.loadtxt\<close>. They are parameters of the model (an environment record), each
  one a function of an abstract world (file system, processes) that may raise.
\<close>

subsection \<open>Python values\<close>

text \<open>An exception, identified by its class and message.\<close>

datatype pyexn = PyExn string

text \<open>
  The \<open>model\<close> argument of \<open>keypoints_match\<close> is \<open>None\<close> or a string. The source
  compares it with \<^verbatim>\<open>==\<close> (line 66) and with \<^verbatim>\<open>is\<close> (lines 68 and 71), so the
  identity of a string object matters. CPython interns every string constant that looks
  like an identifier when it compiles a module: the literal \<^verbatim>\<open>'homography'\<close> denotes
  one and the same object wherever it is written. A string made at run time (read from a
  file or the command line, or concatenated) is a separate object on the heap, identified
  by its address, whatever its characters are.
\<close>

datatype pyobj = PyNone | PyStrInterned string | PyStrHeap nat string

fun str_value :: "pyobj \<Rightarrow> string option" where
  "str_value PyNone = None"
| "str_value (PyStrInterned s) = Some s"
| "str_value (PyStrHeap a s) = Some s"

text \<open>\<^verbatim>\<open>obj == 'literal'\<close>: equality of the characters.\<close>

definition py_eq_literal :: "pyobj \<Rightarrow> string \<Rightarrow> bool" where
  "py_eq_literal obj s = (str_value obj = Some s)"

text \<open>\<^verbatim>\<open>obj is 'literal'\<close>: the same object as the interned constant.\<close>

definition py_is_literal :: "pyobj \<Rightarrow> string \<Rightarrow> bool" where
  "py_is_literal obj s = (obj = PyStrInterned s)"

text \<open>\<^verbatim>\<open>if max_nb:\<close> on \<open>None\<close> or an integer.\<close>

fun truthy :: "int option \<Rightarrow> bool" where
  "truthy None = False"
| "truthy (Some n) = (n \<noteq> 0)"

subsection \<open>String formatting\<close>

definition digit_chars :: string where
  "digit_chars = ''0123456789''"

function str_of_nat :: "nat \<Rightarrow> string" where
  "str_of_nat n =
     (if n < 10 then [digit_chars ! n]
      else str_of_nat (n div 10) @ [digit_chars ! (n mod 10)])"
  by pat_completeness auto
termination
  by (relation "measure id") auto

declare str_of_nat.simps [simp del]

text \<open>\<^verbatim>\<open>'%d' % n\<close> for an integer \<open>n\<close>.\<close>

definition fmt_d :: "int \<Rightarrow> string" where
  "fmt_d n = (if n < 0 then CHR ''-'' # str_of_nat (nat (- n)) else str_of_nat (nat n))"

subsection \<open>Matches and arrays\<close>

text \<open>
  A match file holds one match per line, four numbers \<open>x1 y1 x2 y2\<close> (docstring of
  \<open>matches_on_rpc_roi\<close>). Python floats are idealised as rationals.
\<close>

type_synonym match = "rat \<times> rat \<times> rat \<times> rat"

fun match_row :: "match \<Rightarrow> rat list" where
  "match_row (x1, y1, x2, y2) = [x1, y1, x2, y2]"

text \<open>A numpy array of dimension one or two, as \<open>numpy.loadtxt\<close> can return on a match file.\<close>

datatype ndarray = Array1 "rat list" | Array2 "match list"

fun ndim :: "ndarray \<Rightarrow> nat" where
  "ndim (Array1 xs) = 1"
| "ndim (Array2 ms) = 2"

text \<open>\<^verbatim>\<open>a.shape[0]\<close>\<close>

fun shape0 :: "ndarray \<Rightarrow> nat" where
  "shape0 (Array1 xs) = length xs"
| "shape0 (Array2 ms) = length ms"

text \<open>The numbers of an array in row-major order (\<^verbatim>\<open>a.ravel()\<close>).\<close>

fun ravel :: "ndarray \<Rightarrow> rat list" where
  "ravel (Array1 xs) = xs"
| "ravel (Array2 ms) = concat (map match_row ms)"

text \<open>
  \<open>numpy.loadtxt(fname)\<close> with its default \<open>ndmin=0\<close> removes every axis of length one
  from the table it has read: a file of one line gives a one-dimensional array of its
  four numbers, an empty file gives the empty one-dimensional array (and a warning), and
  only a file of two lines or more gives a two-dimensional array.
\<close>

fun loadtxt_squeeze :: "match list \<Rightarrow> ndarray" where
  "loadtxt_squeeze [] = Array1 []"
| "loadtxt_squeeze [m] = Array1 (match_row m)"
| "loadtxt_squeeze ms = Array2 ms"

subsection \<open>The world outside the module\<close>

text \<open>The calls that leave the module, in the order they are made.\<close>

datatype event =
    Ev_corresponding_roi int int int int
  | Ev_tmpfile string
  | Ev_run string
  | Ev_loadtxt string

record 'w state =
  world :: 'w
  calls :: "event list"

text \<open>
  The environment: what the imported modules do. \<open>'w\<close> is the world they act on and
  \<open>'r\<close> the type of an RPC camera model.
  \<^item> \<open>env_tmpfile ext\<close> is \<^verbatim>\<open>common.tmpfile(ext)\<close>: the path of a new file;
  \<^item> \<open>env_run cmd\<close> is \<^verbatim>\<open>common.run(cmd)\<close>: runs a shell command;
  \<^item> \<open>env_corresponding_roi\<close> is \<^verbatim>\<open>rpc_utils.corresponding_roi\<close>;
  \<^item> \<open>env_read_matches path\<close> is the table \<open>numpy.loadtxt\<close> reads from a match file;
  \<^item> \<open>env_fmt_f x\<close> is \<^verbatim>\<open>'%f' % x\<close> for a float \<open>x\<close>;
  \<^item> \<open>env_sift_match_thresh\<close> is \<^verbatim>\<open>cfg['sift_match_thresh']\<close>.
\<close>

record ('w, 'r) env =
  env_tmpfile :: "string \<Rightarrow> 'w \<Rightarrow> (pyexn + string) \<times> 'w"
  env_run :: "string \<Rightarrow> 'w \<Rightarrow> (pyexn + unit) \<times> 'w"
  env_corresponding_roi ::
    "'r \<Rightarrow> 'r \<Rightarrow> int \<Rightarrow> int \<Rightarrow> int \<Rightarrow> int \<Rightarrow> 'w \<Rightarrow> (pyexn + int \<times> int \<times> int \<times> int) \<times> 'w"
  env_read_matches :: "string \<Rightarrow> 'w \<Rightarrow> (pyexn + match list) \<times> 'w"
  env_fmt_f :: "rat \<Rightarrow> string"
  env_sift_match_thresh :: rat

subsection \<open>Programs: state passing with exceptions\<close>

type_synonym ('a, 'w) prog = "'w state \<Rightarrow> (pyexn + 'a) \<times> 'w state"

definition returnE :: "'a \<Rightarrow> ('a, 'w) prog" where
  "returnE x = (\<lambda>st. (Inr x, st))"

definition raiseE :: "pyexn \<Rightarrow> ('a, 'w) prog" where
  "raiseE e = (\<lambda>st. (Inl e, st))"

text \<open>Sequencing: an exception of the first program ends the whole, with the state it left.\<close>

definition bindE :: "('a, 'w) prog \<Rightarrow> ('a \<Rightarrow> ('b, 'w) prog) \<Rightarrow> ('b, 'w) prog" where
  "bindE m f = (\<lambda>st. case m st of (Inl e, st') \<Rightarrow> (Inl e, st') | (Inr x, st') \<Rightarrow> f x st')"

text \<open>\<^verbatim>\<open>if b: m\<close> with no \<^verbatim>\<open>else\<close>.\<close>

definition whenE :: "bool \<Rightarrow> (unit, 'w) prog \<Rightarrow> (unit, 'w) prog" where
  "whenE b m = (if b then m else returnE ())"

text \<open>A call into the world: it is recorded, and its outcome is the world's.\<close>

definition call :: "event \<Rightarrow> ('w \<Rightarrow> (pyexn + 'a) \<times> 'w) \<Rightarrow> ('a, 'w) prog" where
  "call ev f = (\<lambda>st. case f (world st) of
      (r, w') \<Rightarrow> (r, \<lparr>world = w', calls = calls st @ [ev]\<rparr>))"

definition common_tmpfile :: "('w, 'r) env \<Rightarrow> string \<Rightarrow> (string, 'w) prog" where
  "common_tmpfile env ext = call (Ev_tmpfile ext) (env_tmpfile env ext)"

definition common_run :: "('w, 'r) env \<Rightarrow> string \<Rightarrow> (unit, 'w) prog" where
  "common_run env cmd = call (Ev_run cmd) (env_run env cmd)"

definition rpc_utils_corresponding_roi ::
  "('w, 'r) env \<Rightarrow> 'r \<Rightarrow> 'r \<Rightarrow> int \<Rightarrow> int \<Rightarrow> int \<Rightarrow> int \<Rightarrow> (int \<times> int \<times> int \<times> int, 'w) prog" where
  "rpc_utils_corresponding_roi env rpc1 rpc2 x y w h =
     call (Ev_corresponding_roi x y w h) (env_corresponding_roi env rpc1 rpc2 x y w h)"

definition np_loadtxt :: "('w, 'r) env \<Rightarrow> string \<Rightarrow> (ndarray, 'w) prog" where
  "np_loadtxt env path =
     bindE (call (Ev_loadtxt path) (env_read_matches env path))
       (\<lambda>rows. returnE (loadtxt_squeeze rows))"

subsection \<open>image_keypoints (lines 9 to 36)\<close>

text \<open>The command line of the detector, \<^verbatim>\<open>cmd\<close> of lines 27 to 34.\<close>

definition sift_roi_cmd ::
  "string \<Rightarrow> int \<Rightarrow> int \<Rightarrow> int \<Rightarrow> int \<Rightarrow> int option \<Rightarrow> string \<Rightarrow> string \<Rightarrow> string" where
  "sift_roi_cmd im x y w h max_nb extra_params keyfile =
     (if truthy max_nb
      then ''sift_roi '' @ im @ '' '' @ fmt_d x @ '' '' @ fmt_d y @ '' '' @ fmt_d w @ '' ''
             @ fmt_d h @ '' --max-nb-pts '' @ fmt_d (the max_nb) @ '' '' @ extra_params
             @ '' -o '' @ keyfile
      else ''sift_roi '' @ im @ '' '' @ fmt_d x @ '' '' @ fmt_d y @ '' '' @ fmt_d w @ '' ''
             @ fmt_d h @ '' '' @ extra_params @ '' -o '' @ keyfile)"

definition image_keypoints ::
  "('w, 'r) env \<Rightarrow> string \<Rightarrow> int \<Rightarrow> int \<Rightarrow> int \<Rightarrow> int \<Rightarrow> int option \<Rightarrow> string \<Rightarrow> (string, 'w) prog" where
  "image_keypoints env im x y w h max_nb extra_params =
     bindE (common_tmpfile env ''.txt'') (\<lambda>keyfile.
     bindE (common_run env (sift_roi_cmd im x y w h max_nb extra_params keyfile)) (\<lambda>_.
     returnE keyfile))"

subsection \<open>keypoints_match (lines 39 to 77)\<close>

definition match_cli_cmd ::
  "('w, 'r) env \<Rightarrow> string \<Rightarrow> string \<Rightarrow> string \<Rightarrow> rat \<Rightarrow> string \<Rightarrow> string" where
  "match_cli_cmd env k1 k2 method thresh mfile =
     ''match_cli '' @ k1 @ '' '' @ k2 @ '' -'' @ method @ '' '' @ env_fmt_f env thresh
       @ '' > '' @ mfile"

text \<open>The four estimator command lines of lines 67, 69, 72 and 74.\<close>

definition ransac_fmn_3_cmd :: "string \<Rightarrow> string" where
  "ransac_fmn_3_cmd mfile = ''ransac fmn 1000 .3 7 '' @ mfile @ '' < '' @ mfile"

definition ransac_hom_1_cmd :: "string \<Rightarrow> string" where
  "ransac_hom_1_cmd mfile =
     ''ransac hom 1000 1 4 /dev/null /dev/null '' @ mfile @ '' < '' @ mfile"

definition ransac_hom_2_cmd :: "string \<Rightarrow> string" where
  "ransac_hom_2_cmd mfile =
     ''ransac hom 1000 2 4 /dev/null /dev/null '' @ mfile @ '' < '' @ mfile"

definition ransac_fmn_2_cmd :: "string \<Rightarrow> string" where
  "ransac_fmn_2_cmd mfile = ''ransac fmn 1000 .2 7 '' @ mfile @ '' < '' @ mfile"

definition keypoints_match ::
  "('w, 'r) env \<Rightarrow> string \<Rightarrow> string \<Rightarrow> string \<Rightarrow> rat \<Rightarrow> pyobj \<Rightarrow> (ndarray, 'w) prog" where
  "keypoints_match env k1 k2 method thresh model =
     bindE (common_tmpfile env ''.txt'') (\<lambda>mfile.
     bindE (common_run env (match_cli_cmd env k1 k2 method thresh mfile)) (\<lambda>_.
     bindE (whenE (py_eq_literal model ''fundamental'')
              (common_run env (ransac_fmn_3_cmd mfile))) (\<lambda>_.
     bindE (whenE (py_is_literal model ''homography'')
              (common_run env (ransac_hom_1_cmd mfile))) (\<lambda>_.
     bindE (whenE (py_is_literal model ''hom_fund'')
              (bindE (common_run env (ransac_hom_2_cmd mfile)) (\<lambda>_.
               common_run env (ransac_fmn_2_cmd mfile)))) (\<lambda>_.
     np_loadtxt env mfile)))))"

subsection \<open>matches_on_rpc_roi (lines 80 to 114)\<close>

type_synonym region = "int \<times> int \<times> int \<times> int"

text \<open>\<^verbatim>\<open>'--thresh-dog %f' % thresh_dog\<close>\<close>

definition thresh_dog_param :: "('w, 'r) env \<Rightarrow> rat \<Rightarrow> string" where
  "thresh_dog_param env thresh_dog = ''--thresh-dog '' @ env_fmt_f env thresh_dog"

text \<open>The body of the loop up to the assignment of \<open>matches\<close> (lines 104 to 109).\<close>

definition attempt ::
  "('w, 'r) env \<Rightarrow> string \<Rightarrow> string \<Rightarrow> region \<Rightarrow> region \<Rightarrow> rat \<Rightarrow> (ndarray, 'w) prog" where
  "attempt env im1 im2 r1 r2 thresh_dog =
     (case r1 of (x, y, w, h) \<Rightarrow> case r2 of (x2, y2, w2, h2) \<Rightarrow>
     bindE (image_keypoints env im1 x y w h (Some 2000)
              (thresh_dog_param env thresh_dog)) (\<lambda>p1.
     bindE (image_keypoints env im2 x2 y2 w2 h2 (Some 2000)
              (thresh_dog_param env thresh_dog)) (\<lambda>p2.
     keypoints_match env p1 p2 ''relative'' (env_sift_match_thresh env)
       (PyStrInterned ''fundamental''))))"

text \<open>
  The \<^verbatim>\<open>for\<close> loop of lines 103 to 113 over the remaining values of \<open>i\<close>, with the
  local variables \<open>thresh_dog\<close> and \<open>matches\<close> (unbound before the first iteration).
  \<^verbatim>\<open>break\<close> leaves the loop with the variables as they are.
\<close>

fun search_loop ::
  "('w, 'r) env \<Rightarrow> string \<Rightarrow> string \<Rightarrow> region \<Rightarrow> region \<Rightarrow> nat list \<Rightarrow> rat \<Rightarrow> ndarray option
     \<Rightarrow> (ndarray option, 'w) prog" where
  "search_loop env im1 im2 r1 r2 [] thresh_dog matches = returnE matches"
| "search_loop env im1 im2 r1 r2 (i # is) thresh_dog matches =
     bindE (attempt env im1 im2 r1 r2 thresh_dog) (\<lambda>matches'.
       if 10 < shape0 matches' then returnE (Some matches')
       else search_loop env im1 im2 r1 r2 is (thresh_dog / 2) (Some matches'))"

definition matches_on_rpc_roi ::
  "('w, 'r) env \<Rightarrow> string \<Rightarrow> string \<Rightarrow> 'r \<Rightarrow> 'r \<Rightarrow> int \<Rightarrow> int \<Rightarrow> int \<Rightarrow> int \<Rightarrow> (ndarray, 'w) prog" where
  "matches_on_rpc_roi env im1 im2 rpc1 rpc2 x y w h =
     bindE (rpc_utils_corresponding_roi env rpc1 rpc2 x y w h) (\<lambda>r2.
     bindE (search_loop env im1 im2 (x, y, w, h) r2 [0..<6] (133 / 10000) None) (\<lambda>matches.
       case matches of
         None \<Rightarrow> raiseE (PyExn ''UnboundLocalError'')
       | Some m \<Rightarrow> returnE m))"

subsection \<open>The retry controller of the specification\<close>

text \<open>
  Section 4.5 of the specification describes the loop as a state machine with an attempt
  counter: \<open>Init\<close> sets the sensitivity to \<open>S0\<close> and the counter to 0; \<open>Searching\<close>
  makes one attempt; more than ten matches end it in \<open>Success\<close>; otherwise the counter
  is incremented and the machine searches again while the counter is below
  \<open>attempt_max\<close>, and ends in \<open>Exhausted\<close> with the last matches when it is not. The
  attempt numbered \<open>k\<close> is made with the sensitivity \<open>S0 / 2 ^ k\<close>.
\<close>

definition S0 :: rat where
  "S0 = 133 / 10000"

definition attempt_max :: nat where
  "attempt_max = 6"

function controller ::
  "('w, 'r) env \<Rightarrow> string \<Rightarrow> string \<Rightarrow> region \<Rightarrow> region \<Rightarrow> nat \<Rightarrow> (ndarray, 'w) prog" where
  "controller env im1 im2 r1 r2 k =
     bindE (attempt env im1 im2 r1 r2 (S0 / 2 ^ k)) (\<lambda>m.
       if 10 < shape0 m then returnE m
       else if Suc k < attempt_max then controller env im1 im2 r1 r2 (Suc k)
       else returnE m)"
  by pat_completeness auto
termination
  by (relation "measure (\<lambda>(env, im1, im2, r1, r2, k). attempt_max - k)") auto

declare controller.simps [simp del]

text \<open>
  The first \<open>k\<close> attempts, made from the state \<open>st\<close> with the sensitivities \<open>S0\<close>,
  \<open>S0 / 2\<close>, ..., \<open>S0 / 2 ^ (k - 1)\<close>, have all failed: each ran without an
  exception and found at most ten matches. The value is the array of the last of them
  with the state it left, and \<open>None\<close> when one of them did not fail.
\<close>

fun failed_attempts ::
  "('w, 'r) env \<Rightarrow> string \<Rightarrow> string \<Rightarrow> region \<Rightarrow> region \<Rightarrow> nat \<Rightarrow> 'w state
     \<Rightarrow> (ndarray option \<times> 'w state) option" where
  "failed_attempts env im1 im2 r1 r2 0 st = Some (None, st)"
| "failed_attempts env im1 im2 r1 r2 (Suc k) st =
     (case failed_attempts env im1 im2 r1 r2 k st of
        None \<Rightarrow> None
      | Some (_, st_k) \<Rightarrow>
          (case attempt env im1 im2 r1 r2 (S0 / 2 ^ k) st_k of
             (Inl e, st') \<Rightarrow> None
           | (Inr m, st') \<Rightarrow> if 10 < shape0 m then None else Some (Some m, st')))"

subsection \<open>Reading the record of calls\<close>

fun is_roi_event :: "event \<Rightarrow> bool" where
  "is_roi_event (Ev_corresponding_roi x y w h) = True"
| "is_roi_event ev = False"

text \<open>The shell commands among a list of calls.\<close>

fun run_cmds :: "event list \<Rightarrow> string list" where
  "run_cmds [] = []"
| "run_cmds (Ev_run c # evs) = c # run_cmds evs"
| "run_cmds (ev # evs) = run_cmds evs"

definition starts_with :: "string \<Rightarrow> string \<Rightarrow> bool" where
  "starts_with p s = (take (length p) s = p)"

text \<open>The command \<open>c\<close> is a detection on the rectangle \<open>r\<close> of the image \<open>im\<close>, as the loop issues it.\<close>

definition extraction_on :: "('w, 'r) env \<Rightarrow> string \<Rightarrow> region \<Rightarrow> string \<Rightarrow> bool" where
  "extraction_on env im r c =
     (case r of (x, y, w, h) \<Rightarrow>
        \<exists>thresh_dog keyfile. c = sift_roi_cmd im x y w h (Some 2000)
          (thresh_dog_param env thresh_dog) keyfile)"

text \<open>
  What a call made inside the loop may be: not a call of \<open>corresponding_roi\<close>, and when
  it runs the detector, a detection on the first rectangle of the first image or on the
  rectangle \<open>r2\<close> of the second one.
\<close>

definition loop_event :: "('w, 'r) env \<Rightarrow> string \<Rightarrow> region \<Rightarrow> string \<Rightarrow> region \<Rightarrow> event \<Rightarrow> bool" where
  "loop_event env im1 r1 im2 r2 ev =
     (\<not> is_roi_event ev \<and>
      (\<forall>c. ev = Ev_run c \<longrightarrow> starts_with ''sift_roi '' c \<longrightarrow>
         extraction_on env im1 r1 c \<or> extraction_on env im2 r2 c))"

text \<open>Every program run from any state adds calls to the record, all of them satisfying \<open>P\<close>.\<close>

definition appends :: "(event \<Rightarrow> bool) \<Rightarrow> ('a, 'w) prog \<Rightarrow> bool" where
  "appends P m = (\<forall>st. \<exists>evs. calls (snd (m st)) = calls st @ evs \<and> list_all P evs)"

subsection \<open>What one call of keypoints_match and one attempt do\<close>

text \<open>
  The estimator commands that \<open>keypoints_match\<close> runs for a value of \<open>model\<close>: the
  three \<^verbatim>\<open>if\<close> statements of lines 66 to 74, one after the other.
\<close>

definition estimator_cmds :: "pyobj \<Rightarrow> string \<Rightarrow> string list" where
  "estimator_cmds model mfile =
     (if py_eq_literal model ''fundamental'' then [ransac_fmn_3_cmd mfile] else []) @
     (if py_is_literal model ''homography'' then [ransac_hom_1_cmd mfile] else []) @
     (if py_is_literal model ''hom_fund'' then [ransac_hom_2_cmd mfile, ransac_fmn_2_cmd mfile]
      else [])"

text \<open>The world after a list of commands, when none of them raises.\<close>

fun run_all :: "('w, 'r) env \<Rightarrow> string list \<Rightarrow> 'w \<Rightarrow> 'w option" where
  "run_all env [] w = Some w"
| "run_all env (c # cs) w =
     (case env_run env c w of (Inl e, w') \<Rightarrow> None | (Inr u, w') \<Rightarrow> run_all env cs w')"

text \<open>The calls of one attempt that runs without an exception.\<close>

definition attempt_calls ::
  "('w, 'r) env \<Rightarrow> string \<Rightarrow> string \<Rightarrow> region \<Rightarrow> region \<Rightarrow> rat \<Rightarrow> string \<Rightarrow> string \<Rightarrow> string
     \<Rightarrow> event list" where
  "attempt_calls env im1 im2 r1 r2 thresh_dog p1 p2 mfile =
     (case r1 of (x, y, w, h) \<Rightarrow> case r2 of (x2, y2, w2, h2) \<Rightarrow>
      [Ev_tmpfile ''.txt'',
       Ev_run (sift_roi_cmd im1 x y w h (Some 2000)
                 (thresh_dog_param env thresh_dog) p1),
       Ev_tmpfile ''.txt'',
       Ev_run (sift_roi_cmd im2 x2 y2 w2 h2 (Some 2000)
                 (thresh_dog_param env thresh_dog) p2),
       Ev_tmpfile ''.txt'',
       Ev_run (match_cli_cmd env p1 p2 ''relative'' (env_sift_match_thresh env) mfile),
       Ev_run (ransac_fmn_3_cmd mfile),
       Ev_loadtxt mfile])"

subsection \<open>A small world to run the module in\<close>

text \<open>
  A rendering of \<^verbatim>\<open>'%f'\<close> on rationals: six decimals, a tie rounded away from zero.
\<close>

definition fmt_f_rat :: "rat \<Rightarrow> string" where
  "fmt_f_rat x =
     (let n = nat \<lfloor>\<bar>x\<bar> * 1000000 + 1 / 2\<rfloor>
      in (if x < 0 then [CHR 0x2D] else []) @ str_of_nat (n div 1000000) @ [CHR 0x2E]
           @ map (\<lambda>p. digit_chars ! (n div p mod 10)) [100000, 10000, 1000, 100, 10, 1])"

text \<open>
  The world is the number of temporary files made so far. \<open>tmpfile\<close> numbers its files,
  a command fails when \<open>fails\<close> says so and has no other effect, the second rectangle is
  the first one moved five pixels to the right, and reading any match file when \<open>n\<close>
  temporary files exist gives the table \<open>rows n\<close>.
\<close>

definition tmp_path :: "nat \<Rightarrow> string \<Rightarrow> string" where
  "tmp_path n ext = ''/tmp/s2p_'' @ str_of_nat n @ ext"

definition test_env :: "(nat \<Rightarrow> match list) \<Rightarrow> (string \<Rightarrow> bool) \<Rightarrow> (nat, unit) env" where
  "test_env rows fails =
     \<lparr>env_tmpfile = (\<lambda>ext n. (Inr (tmp_path n ext), Suc n)),
      env_run = (\<lambda>cmd n. if fails cmd then (Inl (PyExn ''RunFailure''), n) else (Inr (), n)),
      env_corresponding_roi = (\<lambda>rpc1 rpc2 x y w h n. (Inr (x + 5, y, w, h), n)),
      env_read_matches = (\<lambda>path n. (Inr (rows n), n)),
      env_fmt_f = fmt_f_rat,
      env_sift_match_thresh = 6 / 10\<rparr>"

definition start :: "nat state" where
  "start = \<lparr>world = 0, calls = []\<rparr>"

text \<open>A match, and \<open>n\<close> copies of it.\<close>

definition a_match :: match where
  "a_match = (101, 102, 106, 102)"

definition some_matches :: "nat \<Rightarrow> match list" where
  "some_matches n = replicate n a_match"

text \<open>Match files: always empty, always one match, always twelve, twelve from the third attempt on.\<close>

definition no_matches :: "nat \<Rightarrow> match list" where
  "no_matches n = []"

definition one_match :: "nat \<Rightarrow> match list" where
  "one_match n = [a_match]"

definition twelve_matches :: "nat \<Rightarrow> match list" where
  "twelve_matches n = some_matches 12"

definition late_matches :: "nat \<Rightarrow> match list" where
  "late_matches n = (if n < 9 then some_matches 3 else some_matches 12)"

text \<open>Commands: none fails, the detector fails.\<close>

definition never :: "string \<Rightarrow> bool" where
  "never cmd = False"

definition detector_fails :: "string \<Rightarrow> bool" where
  "detector_fails cmd = starts_with ''sift_roi '' cmd"

text \<open>An estimator command is among the calls.\<close>

definition estimator_invoked :: "event list \<Rightarrow> bool" where
  "estimator_invoked evs = list_ex (starts_with ''ransac '') (run_cmds evs)"

section \<open>Properties\<close>

subsection \<open>Sequencing\<close>

lemma bindE_assoc: "bindE (bindE m f) g = bindE m (\<lambda>x. bindE (f x) g)"
  by (rule ext) (simp add: bindE_def split: prod.splits sum.splits)

lemma bindE_returnE [simp]: "bindE (returnE x) f = f x"
  by (rule ext) (simp add: bindE_def returnE_def)

lemma bindE_returnE_right [simp]: "bindE m returnE = m"
  by (rule ext) (simp add: bindE_def returnE_def split: prod.splits sum.splits)

subsection \<open>The loop is the controller\<close>

text \<open>
  From the attempt numbered \<open>k\<close> on, the loop of the source, entered with
  \<open>thresh_dog = S0 / 2 ^ k\<close>, is the controller in its state \<open>Searching\<close> with the
  counter at \<open>k\<close>. Induction on the number of attempts left.
\<close>

lemma search_loop_controller:
  "k < attempt_max \<Longrightarrow>
   search_loop env im1 im2 r1 r2 [k..<attempt_max] (S0 / 2 ^ k) ms =
   bindE (controller env im1 im2 r1 r2 k) (\<lambda>m. returnE (Some m))"
proof (induction "attempt_max - k" arbitrary: k ms)
  case 0
  then show ?case by simp
next
  case (Suc d)
  have upt: "[k..<attempt_max] = k # [Suc k..<attempt_max]"
    using Suc.prems by (simp add: upt_conv_Cons)
  have half: "S0 / 2 ^ k / 2 = S0 / 2 ^ Suc k" by simp
  have step: "(if 10 < shape0 m then returnE (Some m)
               else search_loop env im1 im2 r1 r2 [Suc k..<attempt_max] (S0 / 2 ^ k / 2) (Some m)) =
              bindE (if 10 < shape0 m then returnE m
                     else if Suc k < attempt_max then controller env im1 im2 r1 r2 (Suc k)
                     else returnE m) (\<lambda>m. returnE (Some m))" for m
  proof (cases "Suc k < attempt_max")
    case True
    have "d = attempt_max - Suc k" using Suc.hyps(2) by simp
    from Suc.hyps(1)[OF this True, of "Some m"] True show ?thesis
      by (simp only: half) simp
  next
    case False
    then have "[Suc k..<attempt_max] = []" by simp
    with False show ?thesis by simp
  qed
  show ?case
    unfolding upt search_loop.simps
    by (subst controller.simps) (simp only: bindE_assoc step)
qed

subsection \<open>One call of keypoints_match, one attempt\<close>

lemma bindE_apply:
  "bindE m f st = (case m st of (Inl e, st') \<Rightarrow> (Inl e, st') | (Inr x, st') \<Rightarrow> f x st')"
  by (simp add: bindE_def)

lemma call_Inr:
  "f (world st) = (Inr x, w') \<Longrightarrow> call ev f st = (Inr x, \<lparr>world = w', calls = calls st @ [ev]\<rparr>)"
  by (simp add: call_def)

text \<open>Running a list of commands one after the other.\<close>

lemma run_all_append:
  "run_all env (cs @ ds) w = (case run_all env cs w of None \<Rightarrow> None | Some w' \<Rightarrow> run_all env ds w')"
  by (induction cs arbitrary: w) (auto split: prod.splits sum.splits)

lemma whenE_run_all:
  assumes "run_all env (if b then [c] else []) w = Some w'"
  shows "whenE b (common_run env c) \<lparr>world = w, calls = cs\<rparr> =
           (Inr (), \<lparr>world = w', calls = cs @ map Ev_run (if b then [c] else [])\<rparr>)"
  using assms
  by (auto simp: whenE_def common_run_def call_def returnE_def split: prod.splits sum.splits if_splits)

lemma whenE_run_all2:
  assumes "run_all env (if b then [c, d] else []) w = Some w'"
  shows "whenE b (bindE (common_run env c) (\<lambda>_. common_run env d)) \<lparr>world = w, calls = cs\<rparr> =
           (Inr (), \<lparr>world = w', calls = cs @ map Ev_run (if b then [c, d] else [])\<rparr>)"
  using assms
  by (auto simp: whenE_def common_run_def call_def returnE_def bindE_def
           split: prod.splits sum.splits if_splits)

lemma keypoints_match_run:
  assumes tmp: "env_tmpfile env ''.txt'' (world st) = (Inr mfile, w1)"
    and run: "env_run env (match_cli_cmd env k1 k2 method thresh mfile) w1 = (Inr (), w2)"
    and est: "run_all env (estimator_cmds model mfile) w2 = Some w3"
    and read: "env_read_matches env mfile w3 = (Inr rows, w4)"
  shows "keypoints_match env k1 k2 method thresh model st =
           (Inr (loadtxt_squeeze rows),
            \<lparr>world = w4,
             calls = calls st @ [Ev_tmpfile ''.txt'', Ev_run (match_cli_cmd env k1 k2 method thresh mfile)]
                       @ map Ev_run (estimator_cmds model mfile) @ [Ev_loadtxt mfile]\<rparr>)"
proof -
  let ?c1 = "if py_eq_literal model ''fundamental'' then [ransac_fmn_3_cmd mfile] else []"
  let ?c2 = "if py_is_literal model ''homography'' then [ransac_hom_1_cmd mfile] else []"
  let ?c3 = "if py_is_literal model ''hom_fund'' then [ransac_hom_2_cmd mfile, ransac_fmn_2_cmd mfile] else []"
  from est obtain wa wb where a: "run_all env ?c1 w2 = Some wa"
    and b: "run_all env ?c2 wa = Some wb" and c: "run_all env ?c3 wb = Some w3"
    unfolding estimator_cmds_def run_all_append by (auto split: option.splits)
  have s1: "common_tmpfile env ''.txt'' st = (Inr mfile, \<lparr>world = w1, calls = calls st @ [Ev_tmpfile ''.txt'']\<rparr>)"
    unfolding common_tmpfile_def using tmp by (rule call_Inr)
  have s2: "common_run env (match_cli_cmd env k1 k2 method thresh mfile) \<lparr>world = w1, calls = cs\<rparr>
      = (Inr (), \<lparr>world = w2, calls = cs @ [Ev_run (match_cli_cmd env k1 k2 method thresh mfile)]\<rparr>)" for cs
    unfolding common_run_def using run by (simp add: call_def)
  have s6: "np_loadtxt env mfile \<lparr>world = w3, calls = cs\<rparr>
      = (Inr (loadtxt_squeeze rows), \<lparr>world = w4, calls = cs @ [Ev_loadtxt mfile]\<rparr>)" for cs
    unfolding np_loadtxt_def using read by (simp add: call_def bindE_def returnE_def)
  have e1: "whenE (py_eq_literal model ''fundamental'') (common_run env (ransac_fmn_3_cmd mfile))
              \<lparr>world = w2, calls = cs\<rparr> = (Inr (), \<lparr>world = wa, calls = cs @ map Ev_run ?c1\<rparr>)" for cs
    by (rule whenE_run_all[OF a])
  have e2: "whenE (py_is_literal model ''homography'') (common_run env (ransac_hom_1_cmd mfile))
              \<lparr>world = wa, calls = cs\<rparr> = (Inr (), \<lparr>world = wb, calls = cs @ map Ev_run ?c2\<rparr>)" for cs
    by (rule whenE_run_all[OF b])
  have e3: "whenE (py_is_literal model ''hom_fund'')
              (bindE (common_run env (ransac_hom_2_cmd mfile)) (\<lambda>_. common_run env (ransac_fmn_2_cmd mfile)))
              \<lparr>world = wb, calls = cs\<rparr> = (Inr (), \<lparr>world = w3, calls = cs @ map Ev_run ?c3\<rparr>)" for cs
    by (rule whenE_run_all2[OF c])
  show ?thesis
    unfolding keypoints_match_def
    by (simp add: bindE_apply s1 s2 e1 e2 e3 s6 estimator_cmds_def)
qed

lemma image_keypoints_run:
  assumes "env_tmpfile env ''.txt'' (world st) = (Inr keyfile, w1)"
    and "env_run env (sift_roi_cmd im x y w h max_nb extra keyfile) w1 = (Inr (), w2)"
  shows "image_keypoints env im x y w h max_nb extra st =
           (Inr keyfile, \<lparr>world = w2,
              calls = calls st @ [Ev_tmpfile ''.txt'',
                Ev_run (sift_roi_cmd im x y w h max_nb extra keyfile)]\<rparr>)"
  using assms
  by (simp add: image_keypoints_def bindE_apply common_tmpfile_def common_run_def call_def returnE_def)

lemma image_keypoints_run_raises:
  assumes "env_tmpfile env ''.txt'' (world st) = (Inr keyfile, w1)"
    and "env_run env (sift_roi_cmd im x y w h max_nb extra keyfile) w1 = (Inl e, w2)"
  shows "image_keypoints env im x y w h max_nb extra st =
           (Inl e, \<lparr>world = w2,
              calls = calls st @ [Ev_tmpfile ''.txt'',
                Ev_run (sift_roi_cmd im x y w h max_nb extra keyfile)]\<rparr>)"
  using assms
  by (simp add: image_keypoints_def bindE_apply common_tmpfile_def common_run_def call_def)

lemma estimator_cmds_fundamental [simp]:
  "estimator_cmds (PyStrInterned ''fundamental'') mfile = [ransac_fmn_3_cmd mfile]"
  by (simp add: estimator_cmds_def py_eq_literal_def py_is_literal_def)

lemma attempt_run:
  assumes t1: "env_tmpfile env ''.txt'' (world st) = (Inr p1, w1)"
    and r1: "env_run env (sift_roi_cmd im1 x y w h (Some 2000)
               (thresh_dog_param env td) p1) w1 = (Inr (), w2)"
    and t2: "env_tmpfile env ''.txt'' w2 = (Inr p2, w3)"
    and r2: "env_run env (sift_roi_cmd im2 x2 y2 w2' h2 (Some 2000)
               (thresh_dog_param env td) p2) w3 = (Inr (), w4)"
    and t3: "env_tmpfile env ''.txt'' w4 = (Inr mfile, w5)"
    and r3: "env_run env (match_cli_cmd env p1 p2 ''relative'' (env_sift_match_thresh env) mfile) w5
               = (Inr (), w6)"
    and r4: "env_run env (ransac_fmn_3_cmd mfile) w6 = (Inr (), w7)"
    and rd: "env_read_matches env mfile w7 = (Inr rows, w8)"
  shows "attempt env im1 im2 (x, y, w, h) (x2, y2, w2', h2) td st =
           (Inr (loadtxt_squeeze rows),
            \<lparr>world = w8, calls = calls st @
               attempt_calls env im1 im2 (x, y, w, h) (x2, y2, w2', h2) td p1 p2 mfile\<rparr>)"
proof -
  have a: "image_keypoints env im1 x y w h (Some 2000) (thresh_dog_param env td) st =
      (Inr p1, \<lparr>world = w2, calls = calls st @ [Ev_tmpfile ''.txt'',
                Ev_run (sift_roi_cmd im1 x y w h (Some 2000) (thresh_dog_param env td) p1)]\<rparr>)"
    using t1 r1 by (rule image_keypoints_run)
  have b: "image_keypoints env im2 x2 y2 w2' h2 (Some 2000) (thresh_dog_param env td)
       \<lparr>world = w2, calls = cs\<rparr> =
      (Inr p2, \<lparr>world = w4, calls = cs @ [Ev_tmpfile ''.txt'',
                Ev_run (sift_roi_cmd im2 x2 y2 w2' h2 (Some 2000) (thresh_dog_param env td) p2)]\<rparr>)" for cs
    using image_keypoints_run[of env "\<lparr>world = w2, calls = cs\<rparr>" p2 w3 im2 x2 y2 w2' h2 "Some 2000" _ w4] t2 r2
    by simp
  have c: "keypoints_match env p1 p2 ''relative'' (env_sift_match_thresh env) (PyStrInterned ''fundamental'')
       \<lparr>world = w4, calls = cs\<rparr> =
      (Inr (loadtxt_squeeze rows), \<lparr>world = w8, calls = cs @ [Ev_tmpfile ''.txt'',
          Ev_run (match_cli_cmd env p1 p2 ''relative'' (env_sift_match_thresh env) mfile),
          Ev_run (ransac_fmn_3_cmd mfile), Ev_loadtxt mfile]\<rparr>)" for cs
    using keypoints_match_run[of env "\<lparr>world = w4, calls = cs\<rparr>" mfile w5 p1 p2 "''relative''"
         "env_sift_match_thresh env" w6 "PyStrInterned ''fundamental''" w7 rows w8] t3 r3 r4 rd
    by simp
  show ?thesis
    by (simp add: attempt_def attempt_calls_def bindE_apply a b c)
qed

subsection \<open>The loop\<close>

lemma shape0_loadtxt_squeeze: "10 < shape0 (loadtxt_squeeze rows) \<longleftrightarrow> 10 < length rows"
proof (cases rows rule: loadtxt_squeeze.cases)
  case (2 m)
  then show ?thesis by (cases m) simp
qed simp_all

lemma loadtxt_squeeze_many: "10 < length rows \<Longrightarrow> loadtxt_squeeze rows = Array2 rows"
  by (cases rows rule: loadtxt_squeeze.cases) simp_all

lemma ravel_loadtxt_squeeze: "ravel (loadtxt_squeeze rows) = concat (map match_row rows)"
  by (cases rows rule: loadtxt_squeeze.cases) simp_all

text \<open>
  After \<open>k\<close> failed attempts the loop of the source is at its iteration numbered \<open>k\<close>,
  with \<open>thresh_dog = S0 / 2 ^ k\<close> and \<open>matches\<close> the array of the last attempt.
\<close>

lemma loop_after_failed:
  "failed_attempts env im1 im2 r1 r2 k st = Some (ms, st_k) \<Longrightarrow> k \<le> n \<Longrightarrow>
   search_loop env im1 im2 r1 r2 [0..<n] S0 None st =
   search_loop env im1 im2 r1 r2 [k..<n] (S0 / 2 ^ k) ms st_k"
proof (induction k arbitrary: ms st_k)
  case 0
  then show ?case by simp
next
  case (Suc k)
  from Suc.prems(1) obtain ms0 st0 m where
    f: "failed_attempts env im1 im2 r1 r2 k st = Some (ms0, st0)"
    and a: "attempt env im1 im2 r1 r2 (S0 / 2 ^ k) st0 = (Inr m, st_k)"
    and small: "\<not> 10 < shape0 m" and ms: "ms = Some m"
    by (auto split: option.splits prod.splits sum.splits if_splits)
  have upt: "[k..<n] = k # [Suc k..<n]"
    using Suc.prems(2) by (simp add: upt_conv_Cons)
  have "search_loop env im1 im2 r1 r2 [0..<n] S0 None st =
        search_loop env im1 im2 r1 r2 [k..<n] (S0 / 2 ^ k) ms0 st0"
    using Suc.IH[OF f] Suc.prems(2) by simp
  also have "\<dots> = search_loop env im1 im2 r1 r2 [Suc k..<n] (S0 / 2 ^ k / 2) (Some m) st_k"
    unfolding upt search_loop.simps by (simp add: bindE_apply a small)
  also have "S0 / 2 ^ k / 2 = S0 / 2 ^ Suc k" by simp
  finally show ?case unfolding ms .
qed

text \<open>
  Claim C1. \<open>matches_on_rpc_roi\<close> is the retry controller of the specification started
  with the attempt counter at 0: it makes the attempts numbered 0 to at most
  \<open>attempt_max - 1 = 5\<close>, the attempt numbered \<open>k\<close> (the one after \<open>k\<close> failed
  attempts) with the sensitivity \<open>S0 / 2 ^ k\<close> where \<open>S0 = 0.0133\<close>, and stops at the
  first attempt with more than ten matches. In the source, \<open>thresh_dog\<close> starts at
  0.0133 and is halved once after each failed attempt: after \<open>k\<close> failed attempts the
  loop is at its iteration numbered \<open>k\<close> with \<open>thresh_dog = 0.0133 / 2 ^ k\<close>.
\<close>

theorem backoff_schedule:
  "matches_on_rpc_roi env im1 im2 rpc1 rpc2 x y w h =
     bindE (rpc_utils_corresponding_roi env rpc1 rpc2 x y w h)
       (\<lambda>r2. controller env im1 im2 (x, y, w, h) r2 0)
   \<and> (\<forall>r2 k st1 ms st_k.
        failed_attempts env im1 im2 (x, y, w, h) r2 k st1 = Some (ms, st_k) \<longrightarrow> k \<le> 6 \<longrightarrow>
        search_loop env im1 im2 (x, y, w, h) r2 [0..<6] (133 / 10000) None st1 =
        search_loop env im1 im2 (x, y, w, h) r2 [k..<6] (133 / 10000 / 2 ^ k) ms st_k)"
proof (intro conjI allI impI)
  have loop: "search_loop env im1 im2 (x, y, w, h) r2 [0..<6] (133 / 10000) None =
        bindE (controller env im1 im2 (x, y, w, h) r2 0) (\<lambda>m. returnE (Some m))" for r2
    using search_loop_controller[of 0 env im1 im2 "(x, y, w, h)" r2 None]
    by (simp add: attempt_max_def S0_def)
  show "matches_on_rpc_roi env im1 im2 rpc1 rpc2 x y w h =
     bindE (rpc_utils_corresponding_roi env rpc1 rpc2 x y w h)
       (\<lambda>r2. controller env im1 im2 (x, y, w, h) r2 0)"
    unfolding matches_on_rpc_roi_def loop by (simp add: bindE_assoc)
next
  fix r2 k st1 ms st_k
  assume "failed_attempts env im1 im2 (x, y, w, h) r2 k st1 = Some (ms, st_k)" and "k \<le> 6"
  then show "search_loop env im1 im2 (x, y, w, h) r2 [0..<6] (133 / 10000) None st1 =
        search_loop env im1 im2 (x, y, w, h) r2 [k..<6] (133 / 10000 / 2 ^ k) ms st_k"
    using loop_after_failed[of env im1 im2 "(x, y, w, h)" r2 k st1 ms st_k 6]
    by (simp add: S0_def)
qed

lemma matches_on_rpc_roi_after_roi:
  assumes "env_corresponding_roi env rpc1 rpc2 x y w h (world st) = (Inr r2, w1)"
  shows "matches_on_rpc_roi env im1 im2 rpc1 rpc2 x y w h st =
     bindE (search_loop env im1 im2 (x, y, w, h) r2 [0..<6] S0 None)
       (\<lambda>matches. case matches of None \<Rightarrow> raiseE (PyExn ''UnboundLocalError'') | Some m \<Rightarrow> returnE m)
       \<lparr>world = w1, calls = calls st @ [Ev_corresponding_roi x y w h]\<rparr>"
  using assms
  by (simp add: matches_on_rpc_roi_def rpc_utils_corresponding_roi_def call_def bindE_apply S0_def)

text \<open>What the loop does after \<open>k\<close> failed attempts, by what the next attempt does.\<close>

lemma search_loop_found:
  assumes failed: "failed_attempts env im1 im2 r1 r2 k st1 = Some (ms, st_k)"
    and k: "k < n"
    and found: "attempt env im1 im2 r1 r2 (S0 / 2 ^ k) st_k = (Inr m, st')"
    and many: "10 < shape0 m"
  shows "search_loop env im1 im2 r1 r2 [0..<n] S0 None st1 = (Inr (Some m), st')"
proof -
  have upt: "[k..<n] = k # [Suc k..<n]"
    using k by (simp add: upt_conv_Cons)
  have "search_loop env im1 im2 r1 r2 [0..<n] S0 None st1 =
        search_loop env im1 im2 r1 r2 [k..<n] (S0 / 2 ^ k) ms st_k"
    using loop_after_failed[OF failed, of n] k by simp
  also have "\<dots> = (Inr (Some m), st')"
    unfolding upt search_loop.simps
    using many by (simp add: bindE_apply found returnE_def)
  finally show ?thesis .
qed

lemma search_loop_raises:
  assumes failed: "failed_attempts env im1 im2 r1 r2 k st1 = Some (ms, st_k)"
    and k: "k < n"
    and raises: "attempt env im1 im2 r1 r2 (S0 / 2 ^ k) st_k = (Inl e, st')"
  shows "search_loop env im1 im2 r1 r2 [0..<n] S0 None st1 = (Inl e, st')"
proof -
  have upt: "[k..<n] = k # [Suc k..<n]"
    using k by (simp add: upt_conv_Cons)
  have "search_loop env im1 im2 r1 r2 [0..<n] S0 None st1 =
        search_loop env im1 im2 r1 r2 [k..<n] (S0 / 2 ^ k) ms st_k"
    using loop_after_failed[OF failed, of n] k by simp
  also have "\<dots> = (Inl e, st')"
    unfolding upt search_loop.simps by (simp add: bindE_apply raises)
  finally show ?thesis .
qed

lemma search_loop_exhausted:
  assumes failed: "failed_attempts env im1 im2 r1 r2 n st1 = Some (ms, st')"
  shows "search_loop env im1 im2 r1 r2 [0..<n] S0 None st1 = (Inr ms, st')"
  using loop_after_failed[OF failed, of n] by (simp add: returnE_def)

lemma failed_attempts_last:
  assumes "failed_attempts env im1 im2 r1 r2 (Suc k) st1 = Some (ms, st')"
  shows "\<exists>m. ms = Some m \<and> shape0 m \<le> 10"
  using assms by (auto split: option.splits prod.splits sum.splits if_splits)

text \<open>
  Claim C2. When the first \<open>k < 6\<close> attempts have failed and the next one reads a match
  file of more than ten lines, \<open>matches_on_rpc_roi\<close> returns the array of exactly these
  lines, and the state it returns in is the state this attempt left: nothing is called
  after it.
\<close>

theorem early_exit:
  assumes roi: "env_corresponding_roi env rpc1 rpc2 x y w h (world st) = (Inr r2, w1)"
    and failed: "failed_attempts env im1 im2 (x, y, w, h) r2 k
                   \<lparr>world = w1, calls = calls st @ [Ev_corresponding_roi x y w h]\<rparr> = Some (ms, st_k)"
    and k: "k < 6"
    and found: "attempt env im1 im2 (x, y, w, h) r2 (S0 / 2 ^ k) st_k = (Inr (loadtxt_squeeze rows), st')"
    and many: "10 < length rows"
  shows "matches_on_rpc_roi env im1 im2 rpc1 rpc2 x y w h st = (Inr (Array2 rows), st')"
proof -
  have "10 < shape0 (loadtxt_squeeze rows)"
    using many by (simp add: shape0_loadtxt_squeeze)
  from search_loop_found[OF failed k found this]
  have "search_loop env im1 im2 (x, y, w, h) r2 [0..<6] S0 None
          \<lparr>world = w1, calls = calls st @ [Ev_corresponding_roi x y w h]\<rparr> =
        (Inr (Some (Array2 rows)), st')"
    using many by (simp add: loadtxt_squeeze_many)
  then show ?thesis
    by (simp add: matches_on_rpc_roi_after_roi[OF roi] bindE_apply returnE_def)
qed

text \<open>
  Claim C3. When six attempts have failed, \<open>matches_on_rpc_roi\<close> returns normally: its
  value is the array of the sixth attempt, of at most ten rows, and the state is the one
  that attempt left.
\<close>

theorem exhausted_returns_last:
  assumes roi: "env_corresponding_roi env rpc1 rpc2 x y w h (world st) = (Inr r2, w1)"
    and failed: "failed_attempts env im1 im2 (x, y, w, h) r2 6
                   \<lparr>world = w1, calls = calls st @ [Ev_corresponding_roi x y w h]\<rparr> = Some (ms, st')"
  shows "\<exists>m. ms = Some m \<and> shape0 m \<le> 10 \<and>
           matches_on_rpc_roi env im1 im2 rpc1 rpc2 x y w h st = (Inr m, st')"
proof -
  have "failed_attempts env im1 im2 (x, y, w, h) r2 (Suc 5)
          \<lparr>world = w1, calls = calls st @ [Ev_corresponding_roi x y w h]\<rparr> = Some (ms, st')"
    using failed by (simp add: eval_nat_numeral)
  then obtain m where ms: "ms = Some m" and small: "shape0 m \<le> 10"
    using failed_attempts_last by blast
  have "matches_on_rpc_roi env im1 im2 rpc1 rpc2 x y w h st = (Inr m, st')"
    by (simp add: matches_on_rpc_roi_after_roi[OF roi] bindE_apply returnE_def
          search_loop_exhausted[OF failed] ms)
  with ms small show ?thesis by blast
qed

text \<open>
  Claim C9. When, after \<open>k < 6\<close> failed attempts, the detection on the first image or
  (the first one having succeeded) the detection on the second image raises \<open>e\<close>,
  \<open>matches_on_rpc_roi\<close> raises the same \<open>e\<close> in the state the detection left: no call
  follows, no array is returned.
\<close>

theorem extraction_error_propagates:
  assumes roi: "env_corresponding_roi env rpc1 rpc2 x y w h (world st) = (Inr (x2, y2, w2, h2), w1)"
    and failed: "failed_attempts env im1 im2 (x, y, w, h) (x2, y2, w2, h2) k
                   \<lparr>world = w1, calls = calls st @ [Ev_corresponding_roi x y w h]\<rparr> = Some (ms, st_k)"
    and k: "k < 6"
    and raises:
      "image_keypoints env im1 x y w h (Some 2000) (thresh_dog_param env (S0 / 2 ^ k)) st_k = (Inl e, st')
       \<or> (\<exists>p1 st_a.
            image_keypoints env im1 x y w h (Some 2000) (thresh_dog_param env (S0 / 2 ^ k)) st_k
              = (Inr p1, st_a) \<and>
            image_keypoints env im2 x2 y2 w2 h2 (Some 2000) (thresh_dog_param env (S0 / 2 ^ k)) st_a
              = (Inl e, st'))"
  shows "matches_on_rpc_roi env im1 im2 rpc1 rpc2 x y w h st = (Inl e, st')"
proof -
  have "attempt env im1 im2 (x, y, w, h) (x2, y2, w2, h2) (S0 / 2 ^ k) st_k = (Inl e, st')"
    using raises by (auto simp: attempt_def bindE_apply)
  from search_loop_raises[OF failed k this] show ?thesis
    by (simp add: matches_on_rpc_roi_after_roi[OF roi] bindE_apply)
qed

subsection \<open>The loop in the small world\<close>

lemma test_env_simps [simp]:
  "env_tmpfile (test_env rows fails) ext n = (Inr (tmp_path n ext), Suc n)"
  "env_run (test_env rows fails) cmd n =
     (if fails cmd then (Inl (PyExn ''RunFailure''), n) else (Inr (), n))"
  "env_corresponding_roi (test_env rows fails) rpc1 rpc2 x y w h n = (Inr (x + 5, y, w, h), n)"
  "env_read_matches (test_env rows fails) path n = (Inr (rows n), n)"
  "env_sift_match_thresh (test_env rows fails) = 6 / 10"
  by (simp_all add: test_env_def)

lemma attempt_test_env:
  "attempt (test_env rows never) im1 im2 (x, y, w, h) (x2, y2, w2, h2) td \<lparr>world = n, calls = cs\<rparr> =
     (Inr (loadtxt_squeeze (rows (n + 3))),
      \<lparr>world = n + 3,
       calls = cs @ attempt_calls (test_env rows never) im1 im2 (x, y, w, h) (x2, y2, w2, h2) td
                 (tmp_path n ''.txt'') (tmp_path (n + 1) ''.txt'') (tmp_path (n + 2) ''.txt'')\<rparr>)"
  using attempt_run[of "test_env rows never" "\<lparr>world = n, calls = cs\<rparr>" "tmp_path n ''.txt''" "Suc n"
      im1 x y w h td "Suc n" "tmp_path (n + 1) ''.txt''" "n + 2" im2 x2 y2 w2 h2 "n + 2"
      "tmp_path (n + 2) ''.txt''" "n + 3" "n + 3" "n + 3" "rows (n + 3)" "n + 3"]
  by (simp add: never_def numeral_3_eq_3)

lemma failed_attempts_test_env:
  assumes "\<forall>j. 1 \<le> j \<and> j \<le> k \<longrightarrow> length (rows (n + 3 * j)) \<le> 10"
  shows "\<exists>cs ms. failed_attempts (test_env rows never) im1 im2 (x, y, w, h) (x2, y2, w2, h2) k
            \<lparr>world = n, calls = cs0\<rparr> = Some (ms, \<lparr>world = n + 3 * k, calls = cs\<rparr>)
          \<and> (0 < k \<longrightarrow> ms = Some (loadtxt_squeeze (rows (n + 3 * k))))"
  using assms
proof (induction k)
  case 0
  then show ?case by simp
next
  case (Suc k)
  then obtain cs ms where
    f: "failed_attempts (test_env rows never) im1 im2 (x, y, w, h) (x2, y2, w2, h2) k
            \<lparr>world = n, calls = cs0\<rparr> = Some (ms, \<lparr>world = n + 3 * k, calls = cs\<rparr>)"
    by fastforce
  have e: "n + 3 * k + 3 = n + 3 * Suc k" by simp
  from Suc.prems have "length (rows (n + 3 * Suc k)) \<le> 10" by force
  then have small: "\<not> 10 < shape0 (loadtxt_squeeze (rows (n + 3 * Suc k)))"
    by (simp add: shape0_loadtxt_squeeze)
  have a: "attempt (test_env rows never) im1 im2 (x, y, w, h) (x2, y2, w2, h2) (S0 / 2 ^ k)
             \<lparr>world = n + 3 * k, calls = cs\<rparr> =
           (Inr (loadtxt_squeeze (rows (n + 3 * Suc k))),
            \<lparr>world = n + 3 * Suc k,
             calls = cs @ attempt_calls (test_env rows never) im1 im2 (x, y, w, h) (x2, y2, w2, h2)
                 (S0 / 2 ^ k) (tmp_path (n + 3 * k) ''.txt'') (tmp_path (n + 3 * k + 1) ''.txt'')
                 (tmp_path (n + 3 * k + 2) ''.txt'')\<rparr>)"
    unfolding e[symmetric] by (rule attempt_test_env)
  show ?case
    using small by (simp add: f a)
qed


theorem backoff_schedule_witness:
  "\<exists>cs. search_loop (test_env late_matches never) ''im1.tif'' ''im2.tif'' (100, 100, 64, 64)
           (105, 100, 64, 64) [0..<6] (133 / 10000) None start =
         search_loop (test_env late_matches never) ''im1.tif'' ''im2.tif'' (100, 100, 64, 64)
           (105, 100, 64, 64) [2..<6] (133 / 10000 / 2 ^ 2) (Some (Array2 (some_matches 3)))
           \<lparr>world = 6, calls = cs\<rparr>"
proof -
  let ?E = "test_env late_matches never"
  have "\<forall>j. 1 \<le> j \<and> j \<le> 2 \<longrightarrow> length (late_matches (0 + 3 * j)) \<le> 10"
    by (auto simp: late_matches_def some_matches_def)
  from failed_attempts_test_env[OF this, of "''im1.tif''" "''im2.tif''" 100 100 64 64 105 100 64 64 "[]"]
  obtain cs ms where failed:
    "failed_attempts ?E ''im1.tif'' ''im2.tif'' (100, 100, 64, 64) (105, 100, 64, 64) 2 start
     = Some (ms, \<lparr>world = 6, calls = cs\<rparr>)"
    and "ms = Some (loadtxt_squeeze (late_matches 6))"
    by (auto simp: start_def)
  then have ms: "ms = Some (Array2 (some_matches 3))"
    by (simp add: late_matches_def some_matches_def eval_nat_numeral)
  have "search_loop ?E ''im1.tif'' ''im2.tif'' (100, 100, 64, 64)
           (105, 100, 64, 64) [0..<6] (133 / 10000) None start =
         search_loop ?E ''im1.tif'' ''im2.tif'' (100, 100, 64, 64)
           (105, 100, 64, 64) [2..<6] (133 / 10000 / 2 ^ 2) ms \<lparr>world = 6, calls = cs\<rparr>"
    using backoff_schedule[of ?E "''im1.tif''" "''im2.tif''" "()" "()" 100 100 64 64,
        THEN conjunct2, rule_format, OF failed]
    by simp
  then show ?thesis unfolding ms by blast
qed

theorem early_exit_witness:
  "fst (matches_on_rpc_roi (test_env late_matches never) ''im1.tif'' ''im2.tif'' () () 100 100 64 64
          start) = Inr (Array2 (some_matches 12))
   \<and> world (snd (matches_on_rpc_roi (test_env late_matches never) ''im1.tif'' ''im2.tif'' () ()
          100 100 64 64 start)) = 9"
proof -
  let ?E = "test_env late_matches never"
  have roi: "env_corresponding_roi ?E () () 100 100 64 64 (world start) = (Inr (105, 100, 64, 64), 0)"
    by (simp add: start_def)
  have "\<forall>j. 1 \<le> j \<and> j \<le> 2 \<longrightarrow> length (late_matches (0 + 3 * j)) \<le> 10"
    by (auto simp: late_matches_def some_matches_def)
  from failed_attempts_test_env[OF this, of "''im1.tif''" "''im2.tif''" 100 100 64 64 105 100 64 64
      "calls start @ [Ev_corresponding_roi 100 100 64 64]"]
  obtain cs ms where failed:
    "failed_attempts ?E ''im1.tif'' ''im2.tif'' (100, 100, 64, 64) (105, 100, 64, 64) 2
       \<lparr>world = 0, calls = calls start @ [Ev_corresponding_roi 100 100 64 64]\<rparr>
     = Some (ms, \<lparr>world = 6, calls = cs\<rparr>)"
    by auto
  have found: "attempt ?E ''im1.tif'' ''im2.tif'' (100, 100, 64, 64) (105, 100, 64, 64) (S0 / 2 ^ 2)
       \<lparr>world = 6, calls = cs\<rparr> =
     (Inr (loadtxt_squeeze (some_matches 12)),
      \<lparr>world = 9, calls = cs @ attempt_calls ?E ''im1.tif'' ''im2.tif'' (100, 100, 64, 64)
         (105, 100, 64, 64) (S0 / 2 ^ 2) (tmp_path 6 ''.txt'') (tmp_path 7 ''.txt'')
         (tmp_path 8 ''.txt'')\<rparr>)"
    using attempt_test_env[of late_matches "''im1.tif''" "''im2.tif''" 100 100 64 64 105 100 64 64
        "S0 / 2 ^ 2" 6 cs]
    by (simp add: late_matches_def)
  have many: "10 < length (some_matches 12)"
    by (simp add: some_matches_def)
  show ?thesis
    using early_exit[OF roi failed _ found many] by simp
qed

theorem exhausted_returns_last_witness:
  "fst (matches_on_rpc_roi (test_env no_matches never) ''im1.tif'' ''im2.tif'' () () 100 100 64 64
          start) = Inr (Array1 [])
   \<and> world (snd (matches_on_rpc_roi (test_env no_matches never) ''im1.tif'' ''im2.tif'' () ()
          100 100 64 64 start)) = 18"
proof -
  let ?E = "test_env no_matches never"
  have roi: "env_corresponding_roi ?E () () 100 100 64 64 (world start) = (Inr (105, 100, 64, 64), 0)"
    by (simp add: start_def)
  have "\<forall>j. 1 \<le> j \<and> j \<le> 6 \<longrightarrow> length (no_matches (0 + 3 * j)) \<le> 10"
    by (simp add: no_matches_def)
  from failed_attempts_test_env[OF this, of "''im1.tif''" "''im2.tif''" 100 100 64 64 105 100 64 64
      "calls start @ [Ev_corresponding_roi 100 100 64 64]"]
  obtain cs ms where failed:
    "failed_attempts ?E ''im1.tif'' ''im2.tif'' (100, 100, 64, 64) (105, 100, 64, 64) 6
       \<lparr>world = 0, calls = calls start @ [Ev_corresponding_roi 100 100 64 64]\<rparr>
     = Some (ms, \<lparr>world = 18, calls = cs\<rparr>)"
    and "ms = Some (loadtxt_squeeze (no_matches 18))"
    by auto
  then have ms: "ms = Some (Array1 [])"
    by (simp add: no_matches_def)
  show ?thesis
    using exhausted_returns_last[OF roi failed] ms by auto
qed

theorem extraction_error_propagates_witness:
  "matches_on_rpc_roi (test_env twelve_matches detector_fails) ''im1.tif'' ''im2.tif'' () ()
     100 100 64 64 start =
   (Inl (PyExn ''RunFailure''),
    \<lparr>world = 1,
     calls = [Ev_corresponding_roi 100 100 64 64, Ev_tmpfile ''.txt'',
              Ev_run (sift_roi_cmd ''im1.tif'' 100 100 64 64 (Some 2000)
                (thresh_dog_param (test_env twelve_matches detector_fails) S0)
                (tmp_path 0 ''.txt''))]\<rparr>)"
proof -
  let ?E = "test_env twelve_matches detector_fails"
  have roi: "env_corresponding_roi ?E () () 100 100 64 64 (world start) = (Inr (105, 100, 64, 64), 0)"
    by (simp add: start_def)
  have failed: "failed_attempts ?E ''im1.tif'' ''im2.tif'' (100, 100, 64, 64) (105, 100, 64, 64) 0
       \<lparr>world = 0, calls = calls start @ [Ev_corresponding_roi 100 100 64 64]\<rparr>
     = Some (None, \<lparr>world = 0, calls = calls start @ [Ev_corresponding_roi 100 100 64 64]\<rparr>)"
    by simp
  have fails: "detector_fails (sift_roi_cmd ''im1.tif'' 100 100 64 64 (Some 2000)
                 (thresh_dog_param ?E (S0 / 2 ^ 0)) (tmp_path 0 ''.txt''))"
    by (simp add: detector_fails_def starts_with_def sift_roi_cmd_def)
  have raises: "image_keypoints ?E ''im1.tif'' 100 100 64 64 (Some 2000) (thresh_dog_param ?E (S0 / 2 ^ 0))
      \<lparr>world = 0, calls = calls start @ [Ev_corresponding_roi 100 100 64 64]\<rparr> =
    (Inl (PyExn ''RunFailure''),
     \<lparr>world = 1, calls = (calls start @ [Ev_corresponding_roi 100 100 64 64]) @ [Ev_tmpfile ''.txt'',
        Ev_run (sift_roi_cmd ''im1.tif'' 100 100 64 64 (Some 2000)
                (thresh_dog_param ?E (S0 / 2 ^ 0)) (tmp_path 0 ''.txt''))]\<rparr>)"
    using image_keypoints_run_raises[of ?E
        "\<lparr>world = 0, calls = calls start @ [Ev_corresponding_roi 100 100 64 64]\<rparr>"
        "tmp_path 0 ''.txt''" 1 "''im1.tif''" 100 100 64 64 "Some 2000" "thresh_dog_param ?E (S0 / 2 ^ 0)"
        "PyExn ''RunFailure''" 1] fails
    by simp
  show ?thesis
    using extraction_error_propagates[OF roi failed _ disjI1[OF raises]]
    by (simp add: start_def)
qed

subsection \<open>The estimator commands of each model\<close>

lemma estimator_cmds_None [simp]: "estimator_cmds PyNone mfile = []"
  by (simp add: estimator_cmds_def py_eq_literal_def py_is_literal_def)

lemma estimator_cmds_eq_fundamental:
  "py_eq_literal model ''fundamental'' \<Longrightarrow> estimator_cmds model mfile = [ransac_fmn_3_cmd mfile]"
  by (cases model) (auto simp: estimator_cmds_def py_eq_literal_def py_is_literal_def)

lemma estimator_cmds_is_homography [simp]:
  "estimator_cmds (PyStrInterned ''homography'') mfile = [ransac_hom_1_cmd mfile]"
  by (simp add: estimator_cmds_def py_eq_literal_def py_is_literal_def)

lemma estimator_cmds_is_hom_fund [simp]:
  "estimator_cmds (PyStrInterned ''hom_fund'') mfile = [ransac_hom_2_cmd mfile, ransac_fmn_2_cmd mfile]"
  by (simp add: estimator_cmds_def py_eq_literal_def py_is_literal_def)

lemma estimator_cmds_heap [simp]:
  "estimator_cmds (PyStrHeap a s) mfile = (if s = ''fundamental'' then [ransac_fmn_3_cmd mfile] else [])"
  by (simp add: estimator_cmds_def py_eq_literal_def py_is_literal_def)

lemma estimator_cmds_empty:
  "estimator_cmds model mfile = [] \<longleftrightarrow>
     (\<not> py_eq_literal model ''fundamental'' \<and> \<not> py_is_literal model ''homography''
      \<and> \<not> py_is_literal model ''hom_fund'')"
  by (simp add: estimator_cmds_def)

text \<open>
  Claim C6. With \<open>model = None\<close>, when the matcher has run, \<open>keypoints_match\<close> makes three
  calls and no other: it asks for a file name, runs the matcher, and reads the file. Its
  value holds the numbers of every line the matcher left in the file, in their order.
\<close>

theorem model_none_is_identity:
  assumes tmp: "env_tmpfile env ''.txt'' (world st) = (Inr mfile, w1)"
    and run: "env_run env (match_cli_cmd env k1 k2 method thresh mfile) w1 = (Inr (), w2)"
    and read: "env_read_matches env mfile w2 = (Inr rows, w3)"
  shows "keypoints_match env k1 k2 method thresh PyNone st =
           (Inr (loadtxt_squeeze rows),
            \<lparr>world = w3,
             calls = calls st @ [Ev_tmpfile ''.txt'',
                       Ev_run (match_cli_cmd env k1 k2 method thresh mfile), Ev_loadtxt mfile]\<rparr>)
         \<and> ravel (loadtxt_squeeze rows) = concat (map match_row rows)"
  using keypoints_match_run[OF tmp run _ read, of PyNone]
  by (simp add: ravel_loadtxt_squeeze)

text \<open>
  Claim C5, as amended. \<open>keypoints_match\<close> does not look at the candidate matches before it
  runs the estimator: the estimator commands that \<open>model\<close> selects are run whatever the
  match file holds, and none is run only when \<open>model\<close> passes none of the three tests of
  lines 66 to 71. When the file is empty after the last command, the value is the empty
  array.
\<close>

theorem empty_match_file_gives_empty_array:
  assumes tmp: "env_tmpfile env ''.txt'' (world st) = (Inr mfile, w1)"
    and run: "env_run env (match_cli_cmd env k1 k2 method thresh mfile) w1 = (Inr (), w2)"
    and est: "run_all env (estimator_cmds model mfile) w2 = Some w3"
    and read: "env_read_matches env mfile w3 = (Inr [], w4)"
  shows "keypoints_match env k1 k2 method thresh model st =
           (Inr (Array1 []),
            \<lparr>world = w4,
             calls = calls st @ [Ev_tmpfile ''.txt'', Ev_run (match_cli_cmd env k1 k2 method thresh mfile)]
                       @ map Ev_run (estimator_cmds model mfile) @ [Ev_loadtxt mfile]\<rparr>)
         \<and> (estimator_cmds model mfile = [] \<longleftrightarrow>
              (\<not> py_eq_literal model ''fundamental'' \<and> \<not> py_is_literal model ''homography''
               \<and> \<not> py_is_literal model ''hom_fund''))"
  using keypoints_match_run[OF tmp run est read]
  by (simp add: estimator_cmds_empty)

subsection \<open>keypoints_match in the small world\<close>

lemma run_all_test_env: "run_all (test_env rows never) cmds n = Some n"
  by (induction cmds) (simp_all add: never_def)

lemma keypoints_match_test_env:
  "keypoints_match (test_env rows never) k1 k2 method thresh model \<lparr>world = n, calls = cs\<rparr> =
     (Inr (loadtxt_squeeze (rows (Suc n))),
      \<lparr>world = Suc n,
       calls = cs @ [Ev_tmpfile ''.txt'',
                 Ev_run (match_cli_cmd (test_env rows never) k1 k2 method thresh (tmp_path n ''.txt''))]
               @ map Ev_run (estimator_cmds model (tmp_path n ''.txt''))
               @ [Ev_loadtxt (tmp_path n ''.txt'')]\<rparr>)"
  using keypoints_match_run[of "test_env rows never" "\<lparr>world = n, calls = cs\<rparr>" "tmp_path n ''.txt''"
      "Suc n" k1 k2 "method" thresh "Suc n" model "Suc n" "rows (Suc n)" "Suc n"]
  by (simp add: run_all_test_env) (simp add: never_def)

lemma loadtxt_squeeze_twelve [simp]: "loadtxt_squeeze (some_matches 12) = Array2 (some_matches 12)"
  by (rule loadtxt_squeeze_many) (simp add: some_matches_def)

lemma not_ransac_match_cli [simp]:
  "\<not> starts_with ''ransac '' (match_cli_cmd env k1 k2 method thresh mfile)"
  by (simp add: starts_with_def match_cli_cmd_def)

lemma ransac_cmds_start [simp]:
  "starts_with ''ransac '' (ransac_fmn_3_cmd mfile)"
  "starts_with ''ransac '' (ransac_hom_1_cmd mfile)"
  "starts_with ''ransac '' (ransac_hom_2_cmd mfile)"
  "starts_with ''ransac '' (ransac_fmn_2_cmd mfile)"
  by (simp_all add: starts_with_def ransac_fmn_3_cmd_def ransac_hom_1_cmd_def ransac_hom_2_cmd_def
        ransac_fmn_2_cmd_def)

lemma run_cmds_append [simp]: "run_cmds (xs @ ys) = run_cmds xs @ run_cmds ys"
  by (induction xs rule: run_cmds.induct) simp_all

lemma run_cmds_map_Ev_run [simp]: "run_cmds (map Ev_run cs) = cs"
  by (induction cs) simp_all

theorem empty_match_file_gives_empty_array_witness:
  "keypoints_match (test_env no_matches never) ''k1.txt'' ''k2.txt'' ''relative'' (6 / 10)
     (PyStrInterned ''fundamental'') start =
   (Inr (Array1 []),
    \<lparr>world = 1,
     calls = [Ev_tmpfile ''.txt'',
              Ev_run (match_cli_cmd (test_env no_matches never) ''k1.txt'' ''k2.txt'' ''relative''
                        (6 / 10) (tmp_path 0 ''.txt'')),
              Ev_run (ransac_fmn_3_cmd (tmp_path 0 ''.txt'')),
              Ev_loadtxt (tmp_path 0 ''.txt'')]\<rparr>)"
  using empty_match_file_gives_empty_array[of "test_env no_matches never" start "tmp_path 0 ''.txt''" 1
      "''k1.txt''" "''k2.txt''" "''relative''" "6 / 10" 1 "PyStrInterned ''fundamental''" 1 1]
  by (simp add: start_def never_def) (simp add: no_matches_def)

theorem model_none_is_identity_witness:
  "keypoints_match (test_env twelve_matches never) ''k1.txt'' ''k2.txt'' ''relative'' (6 / 10)
     PyNone start =
   (Inr (Array2 (some_matches 12)),
    \<lparr>world = 1,
     calls = [Ev_tmpfile ''.txt'',
              Ev_run (match_cli_cmd (test_env twelve_matches never) ''k1.txt'' ''k2.txt'' ''relative''
                        (6 / 10) (tmp_path 0 ''.txt'')),
              Ev_loadtxt (tmp_path 0 ''.txt'')]\<rparr>)
   \<and> ravel (Array2 (some_matches 12)) = concat (map match_row (some_matches 12))"
  using model_none_is_identity[of "test_env twelve_matches never" start "tmp_path 0 ''.txt''" 1
      "''k1.txt''" "''k2.txt''" "''relative''" "6 / 10" 1 "some_matches 12" 1]
  by (simp add: start_def never_def) (simp add: twelve_matches_def)

text \<open>
  Claim C5 as stated fails: the match file is empty after the matcher, the model is
  \<open>'fundamental'\<close>, and the estimator is run.
\<close>

theorem estimator_runs_on_empty_candidates:
  "fst (env_read_matches (test_env no_matches never) (tmp_path 0 ''.txt'') 1) = Inr []
   \<and> estimator_invoked (calls (snd (keypoints_match (test_env no_matches never) ''k1.txt'' ''k2.txt''
        ''relative'' (6 / 10) (PyStrInterned ''fundamental'') start)))"
  by (simp add: start_def keypoints_match_test_env estimator_invoked_def) (simp add: no_matches_def)

text \<open>
  Claim C8 fails on the code. The model is a string of the characters \<open>homography\<close> that
  is not the interned constant: the test of line 68 is false, no estimator is run, and
  all twelve candidate matches are returned.
\<close>

theorem homography_by_value_runs_no_estimator:
  "py_eq_literal (PyStrHeap 1 ''homography'') ''homography''
   \<and> keypoints_match (test_env twelve_matches never) ''k1.txt'' ''k2.txt'' ''relative'' (6 / 10)
       (PyStrHeap 1 ''homography'') start =
     (Inr (Array2 (some_matches 12)),
      \<lparr>world = 1,
       calls = [Ev_tmpfile ''.txt'',
                Ev_run (match_cli_cmd (test_env twelve_matches never) ''k1.txt'' ''k2.txt'' ''relative''
                          (6 / 10) (tmp_path 0 ''.txt'')),
                Ev_loadtxt (tmp_path 0 ''.txt'')]\<rparr>)
   \<and> \<not> estimator_invoked (calls (snd (keypoints_match (test_env twelve_matches never) ''k1.txt''
          ''k2.txt'' ''relative'' (6 / 10) (PyStrHeap 1 ''homography'') start)))"
  by (simp add: start_def keypoints_match_test_env estimator_invoked_def py_eq_literal_def)
     (simp add: twelve_matches_def)

text \<open>
  Claim C7 fails on the code, in its second half. The model is a string of the characters
  \<open>hom_fund\<close> that is not the interned constant: the test of line 71 is false and neither
  the homography pass nor the fundamental pass is run.
\<close>

theorem hom_fund_by_value_runs_no_estimator:
  "py_eq_literal (PyStrHeap 1 ''hom_fund'') ''hom_fund''
   \<and> keypoints_match (test_env twelve_matches never) ''k1.txt'' ''k2.txt'' ''relative'' (6 / 10)
       (PyStrHeap 1 ''hom_fund'') start =
     (Inr (Array2 (some_matches 12)),
      \<lparr>world = 1,
       calls = [Ev_tmpfile ''.txt'',
                Ev_run (match_cli_cmd (test_env twelve_matches never) ''k1.txt'' ''k2.txt'' ''relative''
                          (6 / 10) (tmp_path 0 ''.txt'')),
                Ev_loadtxt (tmp_path 0 ''.txt'')]\<rparr>)
   \<and> \<not> estimator_invoked (calls (snd (keypoints_match (test_env twelve_matches never) ''k1.txt''
          ''k2.txt'' ''relative'' (6 / 10) (PyStrHeap 1 ''hom_fund'') start)))"
  by (simp add: start_def keypoints_match_test_env estimator_invoked_def py_eq_literal_def)
     (simp add: twelve_matches_def)

subsection \<open>The shape of the result\<close>

text \<open>
  Claim C10 fails on the code. Every match file holds exactly one match: six attempts
  fail, and the value is the one-dimensional array of the four numbers of that match, not
  a two-dimensional array of one row.
\<close>

theorem one_match_gives_one_dimensional_array:
  "fst (matches_on_rpc_roi (test_env one_match never) ''im1.tif'' ''im2.tif'' () () 100 100 64 64
          start) = Inr (Array1 [101, 102, 106, 102])
   \<and> ndim (Array1 [101, 102, 106, 102]) = 1
   \<and> shape0 (Array1 [101, 102, 106, 102]) = 4"
proof -
  let ?E = "test_env one_match never"
  have roi: "env_corresponding_roi ?E () () 100 100 64 64 (world start) = (Inr (105, 100, 64, 64), 0)"
    by (simp add: start_def)
  have "\<forall>j. 1 \<le> j \<and> j \<le> 6 \<longrightarrow> length (one_match (0 + 3 * j)) \<le> 10"
    by (simp add: one_match_def)
  from failed_attempts_test_env[OF this, of "''im1.tif''" "''im2.tif''" 100 100 64 64 105 100 64 64
      "calls start @ [Ev_corresponding_roi 100 100 64 64]"]
  obtain cs ms where failed:
    "failed_attempts ?E ''im1.tif'' ''im2.tif'' (100, 100, 64, 64) (105, 100, 64, 64) 6
       \<lparr>world = 0, calls = calls start @ [Ev_corresponding_roi 100 100 64 64]\<rparr>
     = Some (ms, \<lparr>world = 18, calls = cs\<rparr>)"
    and "ms = Some (loadtxt_squeeze (one_match 18))"
    by auto
  then have ms: "ms = Some (Array1 [101, 102, 106, 102])"
    by (simp add: one_match_def a_match_def)
  show ?thesis
    by (simp add: matches_on_rpc_roi_after_roi[OF roi] bindE_apply returnE_def
          search_loop_exhausted[OF failed] ms)
qed

subsection \<open>The calls of the loop\<close>

lemma appends_returnE [simp]: "appends P (returnE x)"
  by (simp add: appends_def returnE_def)

lemma appends_raiseE [simp]: "appends P (raiseE e)"
  by (simp add: appends_def raiseE_def)

lemma appends_call: "P ev \<Longrightarrow> appends P (call ev f)"
  by (simp add: appends_def call_def split: prod.splits)

lemma appends_bindE:
  assumes m: "appends P m" and f: "\<And>x. appends P (f x)"
  shows "appends P (bindE m f)"
  unfolding appends_def
proof
  fix st
  obtain r st1 where r: "m st = (r, st1)" by (cases "m st")
  from m obtain evs1 where 1: "calls st1 = calls st @ evs1" "list_all P evs1"
    unfolding appends_def using r by (metis snd_conv)
  show "\<exists>evs. calls (snd (bindE m f st)) = calls st @ evs \<and> list_all P evs"
  proof (cases r)
    case (Inl e)
    with r 1 show ?thesis by (simp add: bindE_apply)
  next
    case (Inr x)
    from f[of x] obtain evs2 where 2: "calls (snd (f x st1)) = calls st1 @ evs2" "list_all P evs2"
      unfolding appends_def by blast
    have "calls (snd (bindE m f st)) = calls st @ (evs1 @ evs2)" "list_all P (evs1 @ evs2)"
      using r Inr 1 2 by (simp_all add: bindE_apply)
    then show ?thesis by blast
  qed
qed

lemma appends_whenE: "appends P m \<Longrightarrow> appends P (whenE b m)"
  by (simp add: whenE_def)

lemma not_sift_roi [simp]:
  "\<not> starts_with ''sift_roi '' (match_cli_cmd env k1 k2 method thresh mfile)"
  "\<not> starts_with ''sift_roi '' (ransac_fmn_3_cmd mfile)"
  "\<not> starts_with ''sift_roi '' (ransac_hom_1_cmd mfile)"
  "\<not> starts_with ''sift_roi '' (ransac_hom_2_cmd mfile)"
  "\<not> starts_with ''sift_roi '' (ransac_fmn_2_cmd mfile)"
  by (simp_all add: starts_with_def match_cli_cmd_def ransac_fmn_3_cmd_def ransac_hom_1_cmd_def
        ransac_hom_2_cmd_def ransac_fmn_2_cmd_def)

lemma appends_keypoints_match:
  "appends (loop_event env im1 r1 im2 r2) (keypoints_match env k1 k2 method thresh model)"
  unfolding keypoints_match_def np_loadtxt_def common_tmpfile_def common_run_def
  by (intro appends_bindE appends_whenE appends_call appends_returnE) (simp_all add: loop_event_def)

lemma appends_image_keypoints:
  assumes "\<And>keyfile. extraction_on env im1 r1 (sift_roi_cmd im x y w h max_nb extra keyfile)
                     \<or> extraction_on env im2 r2 (sift_roi_cmd im x y w h max_nb extra keyfile)"
  shows "appends (loop_event env im1 r1 im2 r2) (image_keypoints env im x y w h max_nb extra)"
  unfolding image_keypoints_def common_tmpfile_def common_run_def
  by (intro appends_bindE appends_call appends_returnE) (simp_all add: loop_event_def assms)

lemma appends_attempt:
  "appends (loop_event env im1 r1 im2 r2) (attempt env im1 im2 r1 r2 thresh_dog)"
proof -
  obtain x y w h where r1: "r1 = (x, y, w, h)" by (cases r1)
  obtain x2 y2 w2 h2 where r2: "r2 = (x2, y2, w2, h2)" by (cases r2)
  show ?thesis
    unfolding attempt_def r1 r2 prod.case
    by (intro appends_bindE appends_image_keypoints appends_keypoints_match)
       (auto simp: extraction_on_def)
qed

lemma appends_search_loop:
  "appends (loop_event env im1 r1 im2 r2) (search_loop env im1 im2 r1 r2 is thresh_dog ms)"
proof (induction "is" arbitrary: thresh_dog ms)
  case Nil
  show ?case by simp
next
  case (Cons i "is")
  show ?case
    unfolding search_loop.simps
    by (intro appends_bindE appends_attempt) (simp add: Cons.IH)
qed

lemma Ev_run_in_set: "c \<in> set (run_cmds evs) \<longleftrightarrow> Ev_run c \<in> set evs"
  by (induction evs rule: run_cmds.induct) auto

text \<open>
  Claim C4. The first call of \<open>matches_on_rpc_roi\<close> is the one call of
  \<open>corresponding_roi\<close>; no call after it is one. When it returns the rectangle \<open>r2\<close>,
  every later run of the detector is on the given rectangle of the first image or on
  \<open>r2\<close> in the second image, whatever the value of \<open>thresh_dog\<close> in the command.
\<close>

theorem roi_computed_once:
  "\<exists>evs. calls (snd (matches_on_rpc_roi env im1 im2 rpc1 rpc2 x y w h st)) =
            calls st @ Ev_corresponding_roi x y w h # evs
         \<and> (\<forall>ev \<in> set evs. \<not> is_roi_event ev)
         \<and> (\<forall>r2 w1. env_corresponding_roi env rpc1 rpc2 x y w h (world st) = (Inr r2, w1) \<longrightarrow>
              (\<forall>c \<in> set (run_cmds evs). starts_with ''sift_roi '' c \<longrightarrow>
                 extraction_on env im1 (x, y, w, h) c \<or> extraction_on env im2 r2 c))"
proof -
  obtain r w1 where roi: "env_corresponding_roi env rpc1 rpc2 x y w h (world st) = (r, w1)"
    by (cases "env_corresponding_roi env rpc1 rpc2 x y w h (world st)")
  show ?thesis
  proof (cases r)
    case (Inl e)
    with roi have "calls (snd (matches_on_rpc_roi env im1 im2 rpc1 rpc2 x y w h st)) =
            calls st @ Ev_corresponding_roi x y w h # []"
      by (simp add: matches_on_rpc_roi_def rpc_utils_corresponding_roi_def call_def bindE_apply)
    moreover have "\<forall>ev \<in> set ([] :: event list). \<not> is_roi_event ev" by simp
    ultimately show ?thesis using roi Inl by (intro exI[of _ "[]"]) simp
  next
    case (Inr r2)
    let ?P = "loop_event env im1 (x, y, w, h) im2 r2"
    let ?st1 = "\<lparr>world = w1, calls = calls st @ [Ev_corresponding_roi x y w h]\<rparr>"
    have "appends ?P (bindE (search_loop env im1 im2 (x, y, w, h) r2 [0..<6] S0 None)
       (\<lambda>matches. case matches of None \<Rightarrow> raiseE (PyExn ''UnboundLocalError'') | Some m \<Rightarrow> returnE m))"
      by (intro appends_bindE appends_search_loop) (simp split: option.splits)
    then obtain evs where evs: "calls (snd (matches_on_rpc_roi env im1 im2 rpc1 rpc2 x y w h st)) =
        calls ?st1 @ evs" and all: "list_all ?P evs"
      unfolding appends_def matches_on_rpc_roi_after_roi[OF roi[unfolded Inr]] by blast
    have 1: "calls (snd (matches_on_rpc_roi env im1 im2 rpc1 rpc2 x y w h st)) =
            calls st @ Ev_corresponding_roi x y w h # evs"
      using evs by simp
    have 2: "\<forall>ev \<in> set evs. \<not> is_roi_event ev"
      using all by (simp add: list_all_iff loop_event_def)
    have 3: "\<forall>c \<in> set (run_cmds evs). starts_with ''sift_roi '' c \<longrightarrow>
                 extraction_on env im1 (x, y, w, h) c \<or> extraction_on env im2 r2 c"
      using all by (simp add: list_all_iff loop_event_def Ev_run_in_set)
    show ?thesis
      using 1 2 3 roi Inr by (intro exI[of _ evs]) simp
  qed
qed

theorem roi_computed_once_witness:
  "calls (snd (matches_on_rpc_roi (test_env twelve_matches never) ''im1.tif'' ''im2.tif'' () ()
      100 100 64 64 start)) =
     Ev_corresponding_roi 100 100 64 64 #
       attempt_calls (test_env twelve_matches never) ''im1.tif'' ''im2.tif'' (100, 100, 64, 64)
         (105, 100, 64, 64) S0 (tmp_path 0 ''.txt'') (tmp_path 1 ''.txt'') (tmp_path 2 ''.txt'')
   \<and> (\<exists>evs. calls (snd (matches_on_rpc_roi (test_env twelve_matches never) ''im1.tif'' ''im2.tif''
               () () 100 100 64 64 start)) = Ev_corresponding_roi 100 100 64 64 # evs
         \<and> (\<forall>ev \<in> set evs. \<not> is_roi_event ev)
         \<and> (\<forall>c \<in> set (run_cmds evs). starts_with ''sift_roi '' c \<longrightarrow>
               extraction_on (test_env twelve_matches never) ''im1.tif'' (100, 100, 64, 64) c
               \<or> extraction_on (test_env twelve_matches never) ''im2.tif'' (105, 100, 64, 64) c))"
proof -
  let ?E = "test_env twelve_matches never"
  have roi: "env_corresponding_roi ?E () () 100 100 64 64 (world start) = (Inr (105, 100, 64, 64), 0)"
    by (simp add: start_def)
  have failed: "failed_attempts ?E ''im1.tif'' ''im2.tif'' (100, 100, 64, 64) (105, 100, 64, 64) 0
       \<lparr>world = 0, calls = calls start @ [Ev_corresponding_roi 100 100 64 64]\<rparr>
     = Some (None, \<lparr>world = 0, calls = calls start @ [Ev_corresponding_roi 100 100 64 64]\<rparr>)"
    by simp
  have found: "attempt ?E ''im1.tif'' ''im2.tif'' (100, 100, 64, 64) (105, 100, 64, 64) (S0 / 2 ^ 0)
       \<lparr>world = 0, calls = calls start @ [Ev_corresponding_roi 100 100 64 64]\<rparr> =
     (Inr (loadtxt_squeeze (some_matches 12)),
      \<lparr>world = 3, calls = (calls start @ [Ev_corresponding_roi 100 100 64 64]) @
         attempt_calls ?E ''im1.tif'' ''im2.tif'' (100, 100, 64, 64)
         (105, 100, 64, 64) (S0 / 2 ^ 0) (tmp_path 0 ''.txt'') (tmp_path 1 ''.txt'')
         (tmp_path 2 ''.txt'')\<rparr>)"
    using attempt_test_env[of twelve_matches "''im1.tif''" "''im2.tif''" 100 100 64 64 105 100 64 64
        "S0 / 2 ^ 0" 0 "calls start @ [Ev_corresponding_roi 100 100 64 64]"]
    by (simp add: twelve_matches_def numeral_2_eq_2)
  have many: "10 < shape0 (loadtxt_squeeze (some_matches 12))"
    by (simp add: shape0_loadtxt_squeeze some_matches_def)
  have 1: "calls (snd (matches_on_rpc_roi ?E ''im1.tif'' ''im2.tif'' () () 100 100 64 64 start)) =
     Ev_corresponding_roi 100 100 64 64 #
       attempt_calls ?E ''im1.tif'' ''im2.tif'' (100, 100, 64, 64)
         (105, 100, 64, 64) S0 (tmp_path 0 ''.txt'') (tmp_path 1 ''.txt'') (tmp_path 2 ''.txt'')"
  proof -
    have "fst (matches_on_rpc_roi ?E ''im1.tif'' ''im2.tif'' () () 100 100 64 64 start) =
            Inr (loadtxt_squeeze (some_matches 12))
          \<and> calls (snd (matches_on_rpc_roi ?E ''im1.tif'' ''im2.tif'' () () 100 100 64 64 start)) =
            (calls start @ [Ev_corresponding_roi 100 100 64 64]) @
            attempt_calls ?E ''im1.tif'' ''im2.tif'' (100, 100, 64, 64)
              (105, 100, 64, 64) (S0 / 2 ^ 0) (tmp_path 0 ''.txt'') (tmp_path 1 ''.txt'')
              (tmp_path 2 ''.txt'')"
      using search_loop_found[OF failed _ found many, of 6]
      by (simp add: matches_on_rpc_roi_after_roi[OF roi] bindE_apply returnE_def)
    then show ?thesis by (simp add: start_def)
  qed
  have 2: "\<exists>evs. calls (snd (matches_on_rpc_roi ?E ''im1.tif'' ''im2.tif''
               () () 100 100 64 64 start)) = Ev_corresponding_roi 100 100 64 64 # evs
         \<and> (\<forall>ev \<in> set evs. \<not> is_roi_event ev)
         \<and> (\<forall>c \<in> set (run_cmds evs). starts_with ''sift_roi '' c \<longrightarrow>
               extraction_on ?E ''im1.tif'' (100, 100, 64, 64) c
               \<or> extraction_on ?E ''im2.tif'' (105, 100, 64, 64) c)"
    using roi_computed_once[of ?E "''im1.tif''" "''im2.tif''" "()" "()" 100 100 64 64 start] roi
    by (simp add: start_def)
  from 1 2 show ?thesis by (rule conjI)
qed

end
